theory Spec2Isabelle
  imports Complex_Main "HOL-Library.Word" "HOL-Library.Log_Nat"
begin

section \<open>GoogleAuth: scope normalisation and session projection\<close>

text \<open>
  A shallow embedding of
  \<^verbatim>\<open>packages/core-api/src/apis/implementations/auth/google/GoogleAuth.ts\<close>.
\<close>

subsection \<open>Strings\<close>

text \<open>
  An ECMAScript string is a finite sequence of 16-bit code units. The regular expression
  \<^verbatim>\<open>/[\s]/\<close> (no \<^verbatim>\<open>u\<close> flag) and the methods \<^verbatim>\<open>split\<close>, \<^verbatim>\<open>startsWith\<close> and \<^verbatim>\<open>===\<close>
  all work on code units, so a string is modelled as a list of them. The literals of the
  source are ASCII; \<open>js\<close> turns a HOL literal into the code units of the same text.
\<close>

type_synonym codeunit = "16 word"
type_synonym jsstring = "codeunit list"

definition js :: "string \<Rightarrow> jsstring" where
  "js s = map of_char s"

text \<open>
  The class \<^verbatim>\<open>\s\<close> of ECMAScript: the WhiteSpace code points (TAB, VT, FF, SP, NBSP,
  ZWNBSP and the category Zs) and the LineTerminator code points (LF, CR, LS, PS). All of
  them lie in the Basic Multilingual Plane, so each is one code unit.
\<close>

definition isWhiteSpace :: "codeunit \<Rightarrow> bool" where
  "isWhiteSpace c \<longleftrightarrow>
     c = 0x0009 \<or> c = 0x000A \<or> c = 0x000B \<or> c = 0x000C \<or> c = 0x000D \<or>
     c = 0x0020 \<or> c = 0x00A0 \<or> c = 0x1680 \<or> (0x2000 \<le> c \<and> c \<le> 0x200A) \<or>
     c = 0x2028 \<or> c = 0x2029 \<or> c = 0x202F \<or> c = 0x205F \<or> c = 0x3000 \<or> c = 0xFEFF"

text \<open>
  \<^verbatim>\<open>s.split(/[\s]/)\<close>: the separator matches exactly one code unit, so the string is cut
  at every white-space code unit; adjacent separators, and a separator at either end,
  leave empty fragments, and the empty string gives the one fragment \<^verbatim>\<open>""\<close>.
\<close>

fun split_whitespace :: "jsstring \<Rightarrow> jsstring list" where
  "split_whitespace [] = [[]]"
| "split_whitespace (c # cs) =
     (if isWhiteSpace c then [] # split_whitespace cs
      else (case split_whitespace cs of
              [] \<Rightarrow> [[c]]
            | fragment # fragments \<Rightarrow> (c # fragment) # fragments))"

text \<open>\<^verbatim>\<open>Boolean(s)\<close> on a string: false exactly for the empty string.\<close>

definition Boolean :: "jsstring \<Rightarrow> bool" where
  "Boolean s \<longleftrightarrow> s \<noteq> []"

text \<open>\<^verbatim>\<open>s.startsWith(searchString)\<close> at position 0.\<close>

definition startsWith :: "jsstring \<Rightarrow> jsstring \<Rightarrow> bool" where
  "startsWith s searchString \<longleftrightarrow> take (length searchString) s = searchString"

subsection \<open>Scope normalisation\<close>

definition SCOPE_PREFIX :: jsstring where
  "SCOPE_PREFIX = js ''https://www.googleapis.com/auth/''"

text \<open>
  The parameter \<^verbatim>\<open>scopes?: string | string[]\<close>: \<open>None\<close> is \<^verbatim>\<open>undefined\<close>.
\<close>

datatype scopes_arg = ScopeString jsstring | ScopeArray "jsstring list"

text \<open>
  \<^verbatim>\<open>!scopes\<close>: \<^verbatim>\<open>undefined\<close> and the empty string are falsy; every array, the empty
  one too, is truthy.
\<close>

fun falsy :: "scopes_arg option \<Rightarrow> bool" where
  "falsy None = True"
| "falsy (Some (ScopeString s)) = (s = [])"
| "falsy (Some (ScopeArray xs)) = False"

text \<open>
  \<^verbatim>\<open>Array.isArray(scopes) ? scopes : scopes.split(/[\s]/).filter(Boolean)\<close>
\<close>

fun scopeList :: "scopes_arg \<Rightarrow> jsstring list" where
  "scopeList (ScopeArray xs) = xs"
| "scopeList (ScopeString s) = filter Boolean (split_whitespace s)"

text \<open>The arrow function given to \<^verbatim>\<open>scopeList.map\<close>.\<close>

definition normalizeScope :: "jsstring \<Rightarrow> jsstring" where
  "normalizeScope scope =
     (if scope = js ''openid'' then scope
      else if scope = js ''profile'' \<or> scope = js ''email''
        then SCOPE_PREFIX @ js ''userinfo.'' @ scope
      else if startsWith scope SCOPE_PREFIX then scope
      else SCOPE_PREFIX @ scope)"

definition normalizeScopes :: "scopes_arg option \<Rightarrow> jsstring set" where
  "normalizeScopes scopes =
     (if falsy scopes then {}
      else set (map normalizeScope (scopeList (the scopes))))"

subsection \<open>Numbers and time\<close>

text \<open>
  An ECMAScript \<^verbatim>\<open>number\<close> is an IEEE 754 binary64 value: a finite double (kept here as
  the rational it denotes), NaN, or one of the two infinities. The sign of zero is not
  kept: nothing below divides, and the \<^verbatim>\<open>Date\<close> constructor turns \<^verbatim>\<open>-0\<close> into \<^verbatim>\<open>+0\<close>.
\<close>

datatype number = Finite rat | NaN | PosInfinity | NegInfinity

text \<open>
  Rounding an exact result to the nearest double, ties to the even significand, as
  \<^verbatim>\<open>+\<close> and \<^verbatim>\<open>*\<close> do. \<open>ilog2 a\<close> is the exponent \<open>e\<close> with \<open>2^e \<le> a < 2^(e+1)\<close>; a double
  in that binade is a multiple of \<open>2^(e - 52)\<close>, and of \<open>2^(-1074)\<close> in the subnormal
  range; a result that rounds to \<open>2^1024\<close> or more overflows to an infinity.
\<close>

definition pow2 :: "int \<Rightarrow> rat" where
  "pow2 e = (if 0 \<le> e then 2 ^ nat e else 1 / 2 ^ nat (- e))"

definition ilog2 :: "rat \<Rightarrow> int" where
  "ilog2 a =
     (if 1 \<le> a then bitlen \<lfloor>a\<rfloor> - 1
      else - bitlen (\<lceil>1 / a\<rceil> - 1))"

definition roundTiesToEven :: "rat \<Rightarrow> int" where
  "roundTiesToEven r =
     (let f = \<lfloor>r\<rfloor>; d = r - of_int f
      in if d < 1 / 2 then f else if 1 / 2 < d then f + 1
         else if even f then f else f + 1)"

definition round_double :: "rat \<Rightarrow> number" where
  "round_double x =
     (if x = 0 then Finite 0
      else
        let a = \<bar>x\<bar>;
            quantum = pow2 (max (ilog2 a) (- 1022) - 52);
            r = of_int (roundTiesToEven (a / quantum)) * quantum
        in if 2 ^ 1024 \<le> r then (if 0 < x then PosInfinity else NegInfinity)
           else Finite (if 0 < x then r else - r))"

text \<open>\<^verbatim>\<open>x * y\<close> and \<^verbatim>\<open>x + y\<close> on numbers.\<close>

fun number_mul :: "number \<Rightarrow> number \<Rightarrow> number" where
  "number_mul NaN y = NaN"
| "number_mul x NaN = NaN"
| "number_mul (Finite x) (Finite y) = round_double (x * y)"
| "number_mul (Finite x) PosInfinity =
     (if x = 0 then NaN else if 0 < x then PosInfinity else NegInfinity)"
| "number_mul (Finite x) NegInfinity =
     (if x = 0 then NaN else if 0 < x then NegInfinity else PosInfinity)"
| "number_mul PosInfinity (Finite y) =
     (if y = 0 then NaN else if 0 < y then PosInfinity else NegInfinity)"
| "number_mul NegInfinity (Finite y) =
     (if y = 0 then NaN else if 0 < y then NegInfinity else PosInfinity)"
| "number_mul PosInfinity PosInfinity = PosInfinity"
| "number_mul PosInfinity NegInfinity = NegInfinity"
| "number_mul NegInfinity PosInfinity = NegInfinity"
| "number_mul NegInfinity NegInfinity = PosInfinity"

fun number_add :: "number \<Rightarrow> number \<Rightarrow> number" where
  "number_add NaN y = NaN"
| "number_add x NaN = NaN"
| "number_add (Finite x) (Finite y) = round_double (x + y)"
| "number_add (Finite x) PosInfinity = PosInfinity"
| "number_add (Finite x) NegInfinity = NegInfinity"
| "number_add PosInfinity (Finite y) = PosInfinity"
| "number_add NegInfinity (Finite y) = NegInfinity"
| "number_add PosInfinity PosInfinity = PosInfinity"
| "number_add PosInfinity NegInfinity = NaN"
| "number_add NegInfinity PosInfinity = NaN"
| "number_add NegInfinity NegInfinity = NegInfinity"

text \<open>
  \<^verbatim>\<open>Date.now()\<close> is an argument \<open>now\<close> of every function that reads the clock: a time
  value, that is a whole number of milliseconds since the epoch.

  A \<^verbatim>\<open>Date\<close> holds a time value or NaN. \<^verbatim>\<open>new Date(v)\<close> applies TimeClip to the number
  \<open>v\<close>: NaN, an infinity and a value more than \<open>8.64 * 10 ^ 15\<close> ms away from the epoch
  give an invalid date, whose \<^verbatim>\<open>getTime()\<close> is NaN (\<open>None\<close> here); any other value is
  truncated towards zero.
\<close>

datatype Date = TimeValue int | InvalidDate

definition new_Date :: "number \<Rightarrow> Date" where
  "new_Date v =
     (case v of
        Finite x \<Rightarrow>
          if 8640000000000000 < \<bar>x\<bar> then InvalidDate
          else TimeValue (if 0 \<le> x then \<lfloor>x\<rfloor> else \<lceil>x\<rceil>)
      | _ \<Rightarrow> InvalidDate)"

fun getTime :: "Date \<Rightarrow> int option" where
  "getTime (TimeValue t) = Some t"
| "getTime InvalidDate = None"

subsection \<open>Provider response and session\<close>

text \<open>
  \<^verbatim>\<open>GoogleAuthResponse\<close>. \<^verbatim>\<open>ProfileInfo\<close> and \<^verbatim>\<open>BackstageIdentity\<close> are declared
  elsewhere and only passed around here: they are the type parameters \<open>'p\<close> and \<open>'i\<close>.
  The extension of the record stands for any further property of the response object.
\<close>

record ResponseProviderInfo =
  accessToken :: jsstring
  idToken :: jsstring
  scope :: jsstring
  expiresInSeconds :: number

record ('p, 'i) GoogleAuthResponse =
  providerInfo :: ResponseProviderInfo
  profile :: 'p
  backstageIdentity :: 'i

text \<open>
  \<^verbatim>\<open>GoogleSession\<close>, with the shape of the object that \<^verbatim>\<open>sessionTransform\<close> builds.
\<close>

record SessionProviderInfo =
  idToken :: jsstring
  accessToken :: jsstring
  scopes :: "jsstring set"
  expiresAt :: Date

record ('p, 'i) GoogleSession =
  providerInfo :: SessionProviderInfo
  profile :: 'p
  backstageIdentity :: 'i

text \<open>
  The \<^verbatim>\<open>sessionTransform\<close> given to the connector in \<^verbatim>\<open>create\<close>. The spread
  \<^verbatim>\<open>...res\<close> copies every property of the response; \<^verbatim>\<open>providerInfo\<close> is then replaced.
\<close>

definition sessionTransform ::
  "int \<Rightarrow> ('p, 'i, 'z) GoogleAuthResponse_scheme \<Rightarrow> ('p, 'i, 'z) GoogleSession_scheme" where
  "sessionTransform now res =
     \<lparr> GoogleSession.providerInfo =
         \<lparr> SessionProviderInfo.idToken =
             ResponseProviderInfo.idToken (GoogleAuthResponse.providerInfo res),
           SessionProviderInfo.accessToken =
             ResponseProviderInfo.accessToken (GoogleAuthResponse.providerInfo res),
           SessionProviderInfo.scopes = normalizeScopes
             (Some (ScopeString (scope (GoogleAuthResponse.providerInfo res)))),
           SessionProviderInfo.expiresAt = new_Date
             (number_add (Finite (of_int now))
                (number_mul (expiresInSeconds (GoogleAuthResponse.providerInfo res))
                   (Finite 1000))) \<rparr>,
       GoogleSession.profile = GoogleAuthResponse.profile res,
       GoogleSession.backstageIdentity = GoogleAuthResponse.backstageIdentity res,
       \<dots> = GoogleAuthResponse.more res \<rparr>"

subsection \<open>The options of the session manager\<close>

text \<open>
  The three options that \<^verbatim>\<open>create\<close> gives to \<^verbatim>\<open>RefreshingAuthSessionManager\<close> beside the
  connector.
\<close>

definition defaultScopes :: "jsstring set" where
  "defaultScopes =
     set [js ''openid'',
          SCOPE_PREFIX @ js ''userinfo.email'',
          SCOPE_PREFIX @ js ''userinfo.profile'']"

definition sessionScopes :: "('p, 'i, 'z) GoogleSession_scheme \<Rightarrow> jsstring set" where
  "sessionScopes session = SessionProviderInfo.scopes (GoogleSession.providerInfo session)"

text \<open>
  A comparison with NaN is false, so a session with an invalid expiry date is never due.
\<close>

definition sessionShouldRefresh :: "int \<Rightarrow> ('p, 'i, 'z) GoogleSession_scheme \<Rightarrow> bool" where
  "sessionShouldRefresh now session =
     (case getTime (expiresAt (GoogleSession.providerInfo session)) of
        None \<Rightarrow> False
      | Some t \<Rightarrow>
          (let expiresInSec = real_of_int (t - now) / 1000
           in expiresInSec < 60 * 5))"

subsection \<open>The facade\<close>

text \<open>
  \<^verbatim>\<open>SessionManager<GoogleSession>\<close> is an interface whose implementation lies outside this
  file: it is a parameter. \<open>'m\<close> is the state of the manager, threaded through every
  call; a promise settles as \<open>Inr\<close> (fulfilled) or \<open>Inl\<close> (rejected). \<^verbatim>\<open>getSession\<close>
  fulfils with a session or with \<^verbatim>\<open>undefined\<close> (\<open>None\<close>).

  The argument of \<^verbatim>\<open>getSession\<close>: the properties of \<^verbatim>\<open>AuthRequestOptions\<close> (the type
  parameter \<open>'o\<close>; \<open>None\<close> when the caller gave no options, so that none are set) and
  the optional \<^verbatim>\<open>scopes\<close>.
\<close>

record 'o GetSessionOptions =
  options :: "'o option"
  scopes :: "jsstring set option"

record ('o, 'e, 's, 'm) SessionManager =
  getSession :: "'o GetSessionOptions \<Rightarrow> 'm \<Rightarrow> ('e + 's option) \<times> 'm"
  removeSession :: "'m \<Rightarrow> ('e + unit) \<times> 'm"

text \<open>
  \<^verbatim>\<open>await\<close> followed by a projection: a rejection propagates, a fulfilled value is
  mapped. The parameter \<^verbatim>\<open>scope\<close> of \<^verbatim>\<open>getAccessToken\<close> is \<open>scope_arg\<close> here.
\<close>

definition await_then ::
  "('e + 'a) \<times> 'm \<Rightarrow> ('a \<Rightarrow> 'b) \<Rightarrow> ('e + 'b) \<times> 'm" where
  "await_then settled k = (case settled of
       (Inl e, m') \<Rightarrow> (Inl e, m')
     | (Inr v, m') \<Rightarrow> (Inr (k v), m'))"

definition getAccessToken ::
  "('o, 'e, ('p, 'i, 'z) GoogleSession_scheme, 'm) SessionManager \<Rightarrow>
   scopes_arg option \<Rightarrow> 'o option \<Rightarrow> 'm \<Rightarrow> ('e + jsstring) \<times> 'm" where
  "getAccessToken sessionManager scope_arg opts m =
     await_then
       (getSession sessionManager
          \<lparr> options = opts, GetSessionOptions.scopes = Some (normalizeScopes scope_arg) \<rparr> m)
       (\<lambda>session. case session of
            None \<Rightarrow> js ''''
          | Some s \<Rightarrow> SessionProviderInfo.accessToken (GoogleSession.providerInfo s))"

definition getIdToken ::
  "('o, 'e, ('p, 'i, 'z) GoogleSession_scheme, 'm) SessionManager \<Rightarrow>
   'o option \<Rightarrow> 'm \<Rightarrow> ('e + jsstring) \<times> 'm" where
  "getIdToken sessionManager opts m =
     await_then
       (getSession sessionManager
          \<lparr> options = opts, GetSessionOptions.scopes = None \<rparr> m)
       (\<lambda>session. case session of
            None \<Rightarrow> js ''''
          | Some s \<Rightarrow> SessionProviderInfo.idToken (GoogleSession.providerInfo s))"

definition logout ::
  "('o, 'e, 's, 'm) SessionManager \<Rightarrow> 'm \<Rightarrow> ('e + unit) \<times> 'm" where
  "logout sessionManager m = removeSession sessionManager m"

definition getBackstageIdentity ::
  "('o, 'e, ('p, 'i, 'z) GoogleSession_scheme, 'm) SessionManager \<Rightarrow>
   'o option \<Rightarrow> 'm \<Rightarrow> ('e + 'i option) \<times> 'm" where
  "getBackstageIdentity sessionManager opts m =
     await_then
       (getSession sessionManager
          \<lparr> options = opts, GetSessionOptions.scopes = None \<rparr> m)
       (\<lambda>session. case session of
            None \<Rightarrow> None
          | Some s \<Rightarrow> Some (GoogleSession.backstageIdentity s))"

definition getProfile ::
  "('o, 'e, ('p, 'i, 'z) GoogleSession_scheme, 'm) SessionManager \<Rightarrow>
   'o option \<Rightarrow> 'm \<Rightarrow> ('e + 'p option) \<times> 'm" where
  "getProfile sessionManager opts m =
     await_then
       (getSession sessionManager
          \<lparr> options = opts, GetSessionOptions.scopes = None \<rparr> m)
       (\<lambda>session. case session of
            None \<Rightarrow> None
          | Some s \<Rightarrow> Some (GoogleSession.profile s))"

section \<open>Properties of scope normalisation\<close>

lemma startsWith_append: "startsWith (p @ s) p"
  by (simp add: startsWith_def)

lemma openid_unqualified: "\<not> startsWith (js ''openid'') SCOPE_PREFIX"
  by (simp add: startsWith_def SCOPE_PREFIX_def js_def)

lemma profile_unqualified: "\<not> startsWith (js ''profile'') SCOPE_PREFIX"
  by (simp add: startsWith_def SCOPE_PREFIX_def js_def)

lemma email_unqualified: "\<not> startsWith (js ''email'') SCOPE_PREFIX"
  by (simp add: startsWith_def SCOPE_PREFIX_def js_def)

lemma qualified_not_keyword:
  assumes "startsWith s SCOPE_PREFIX"
  shows "s \<noteq> js ''openid''" and "s \<noteq> js ''profile''" and "s \<noteq> js ''email''"
  using assms openid_unqualified profile_unqualified email_unqualified by auto

lemma normalizeScope_qualified:
  "startsWith s SCOPE_PREFIX \<Longrightarrow> normalizeScope s = s"
  by (simp add: normalizeScope_def qualified_not_keyword)

lemma normalizeScope_range:
  "normalizeScope s = js ''openid'' \<or> startsWith (normalizeScope s) SCOPE_PREFIX"
  by (simp add: normalizeScope_def startsWith_append)

lemma normalizeScope_idem: "normalizeScope (normalizeScope s) = normalizeScope s"
  using normalizeScope_range [of s]
  by (auto simp: normalizeScope_qualified) (simp add: normalizeScope_def)

lemma normalizeScopes_Some: "normalizeScopes (Some a) = normalizeScope ` set (scopeList a)"
  by (cases a) (simp_all add: normalizeScopes_def Boolean_def)

lemma split_whitespace_nonempty: "split_whitespace s \<noteq> []"
  by (induction s) (auto split: list.splits)

lemma split_whitespace_plain:
  "\<forall>c\<in>set s. \<not> isWhiteSpace c \<Longrightarrow> split_whitespace s = [s]"
  by (induction s) auto

lemma split_whitespace_blank:
  "\<forall>c\<in>set s. isWhiteSpace c \<Longrightarrow> set (split_whitespace s) = {[]}"
  by (induction s) auto

lemma split_whitespace_append:
  "isWhiteSpace w \<Longrightarrow>
     split_whitespace (a @ w # b) = split_whitespace a @ split_whitespace b"
  by (induction a) (auto split: list.splits simp: split_whitespace_nonempty)

lemma split_whitespace_fragments:
  "\<forall>f\<in>set (split_whitespace s). \<forall>c\<in>set f. \<not> isWhiteSpace c"
proof (induction s)
  case Nil
  show ?case by simp
next
  case (Cons a s)
  show ?case
  proof (cases "isWhiteSpace a")
    case True
    with Cons show ?thesis by simp
  next
    case False
    obtain g gs where g: "split_whitespace s = g # gs"
      using split_whitespace_nonempty [of s] by (cases "split_whitespace s") auto
    with Cons False show ?thesis by auto
  qed
qed

lemma scopeList_string_fragments:
  "\<forall>f\<in>set (scopeList (ScopeString s)). f \<noteq> [] \<and> (\<forall>c\<in>set f. \<not> isWhiteSpace c)"
  using split_whitespace_fragments [of s] by (auto simp: Boolean_def)

lemma scopeList_string_append:
  "isWhiteSpace w \<Longrightarrow>
     scopeList (ScopeString (a @ w # b)) = scopeList (ScopeString a) @ scopeList (ScopeString b)"
  by (simp add: split_whitespace_append)

lemma scopeList_string_plain:
  "s \<noteq> [] \<Longrightarrow> \<forall>c\<in>set s. \<not> isWhiteSpace c \<Longrightarrow> scopeList (ScopeString s) = [s]"
  by (simp add: split_whitespace_plain Boolean_def)

lemma scopeList_string_blank:
  "\<forall>c\<in>set s. isWhiteSpace c \<Longrightarrow> scopeList (ScopeString s) = []"
  using split_whitespace_blank [of s] by (auto simp: Boolean_def filter_empty_conv)

lemma normalizeScopes_nonempty_elements: "[] \<notin> normalizeScopes requested"
proof
  assume "[] \<in> normalizeScopes requested"
  then obtain s where "normalizeScope s = []"
    by (auto simp: normalizeScopes_def split: if_splits dest: sym)
  with normalizeScope_range [of s] show False
    by (simp add: startsWith_def SCOPE_PREFIX_def js_def)
qed

lemma normalizeScopes_fixed: "x \<in> normalizeScopes requested \<Longrightarrow> normalizeScope x = x"
  by (auto simp: normalizeScopes_def normalizeScope_idem split: if_splits)

lemma normalizeScopes_again:
  assumes "set ys = normalizeScopes requested"
  shows "normalizeScopes (Some (ScopeArray ys)) = normalizeScopes requested"
proof -
  have "normalizeScope ` set ys = set ys"
    using assms normalizeScopes_fixed [of _ requested] by (auto simp: image_iff)
  with assms show ?thesis by (simp add: normalizeScopes_Some)
qed

lemma normalizeScope_openid: "normalizeScope (js ''openid'') = js ''openid''"
  by (simp add: normalizeScope_def)

lemma normalizeScope_profile:
  "normalizeScope (js ''profile'') = js ''https://www.googleapis.com/auth/userinfo.profile''"
  by (simp add: normalizeScope_def SCOPE_PREFIX_def js_def)

lemma normalizeScope_email:
  "normalizeScope (js ''email'') = js ''https://www.googleapis.com/auth/userinfo.email''"
  by (simp add: normalizeScope_def SCOPE_PREFIX_def js_def)

lemma normalizeScope_other:
  "s \<noteq> js ''openid'' \<Longrightarrow> s \<noteq> js ''profile'' \<Longrightarrow> s \<noteq> js ''email'' \<Longrightarrow>
   \<not> startsWith s SCOPE_PREFIX \<Longrightarrow> normalizeScope s = SCOPE_PREFIX @ s"
  by (simp add: normalizeScope_def)

lemma profile_list:
  "normalizeScopes (Some (ScopeArray [js ''profile''])) =
     {js ''https://www.googleapis.com/auth/userinfo.profile''}"
  by (simp add: normalizeScopes_Some normalizeScope_profile)

lemma custom_string:
  "normalizeScopes (Some (ScopeString (js ''custom''))) =
     {js ''https://www.googleapis.com/auth/custom''}"
  by (simp add: normalizeScopes_def normalizeScope_def startsWith_def SCOPE_PREFIX_def js_def
      isWhiteSpace_def Boolean_def)

lemma openid_email_string:
  "normalizeScopes (Some (ScopeString (js ''openid email''))) =
     {js ''openid'', js ''https://www.googleapis.com/auth/userinfo.email''}"
  by (simp add: normalizeScopes_def normalizeScope_def startsWith_def SCOPE_PREFIX_def js_def
      isWhiteSpace_def Boolean_def)

text \<open>
  C1: each token is mapped by the four-way rule, and the result is the set of the mapped
  tokens: the elements of a list, or the non-empty fragments of a string between its
  white-space code units.
\<close>

theorem normalizeScopes_token_rule:
  "normalizeScopes None = {} \<and>
   normalizeScopes (Some input) = normalizeScope ` set (scopeList input) \<and>
   normalizeScopes (Some (ScopeArray xs)) = normalizeScope ` set xs \<and>
   normalizeScopes (Some (ScopeString str)) =
     normalizeScope ` (set (split_whitespace str) - {[]}) \<and>
   normalizeScope (js ''openid'') = js ''openid'' \<and>
   normalizeScope (js ''profile'') = js ''https://www.googleapis.com/auth/userinfo.profile'' \<and>
   normalizeScope (js ''email'') = js ''https://www.googleapis.com/auth/userinfo.email'' \<and>
   (startsWith prefixed (js ''https://www.googleapis.com/auth/'') \<longrightarrow>
      normalizeScope prefixed = prefixed) \<and>
   (other \<noteq> js ''openid'' \<and> other \<noteq> js ''profile'' \<and> other \<noteq> js ''email'' \<and>
    \<not> startsWith other (js ''https://www.googleapis.com/auth/'') \<longrightarrow>
      normalizeScope other = js ''https://www.googleapis.com/auth/'' @ other) \<and>
   normalizeScopes (Some (ScopeArray [js ''profile''])) =
     {js ''https://www.googleapis.com/auth/userinfo.profile''} \<and>
   normalizeScopes (Some (ScopeString (js ''openid email''))) =
     {js ''openid'', js ''https://www.googleapis.com/auth/userinfo.email''} \<and>
   normalizeScopes (Some (ScopeString (js ''custom''))) =
     {js ''https://www.googleapis.com/auth/custom''}"
proof -
  have "normalizeScopes None = {}"
    by (simp add: normalizeScopes_def)
  moreover note normalizeScopes_Some [of input]
  moreover have "normalizeScopes (Some (ScopeArray xs)) = normalizeScope ` set xs"
    by (simp add: normalizeScopes_Some)
  moreover have "normalizeScopes (Some (ScopeString str)) =
     normalizeScope ` (set (split_whitespace str) - {[]})"
  proof -
    have "set (filter Boolean (split_whitespace str)) = set (split_whitespace str) - {[]}"
      by (auto simp: Boolean_def)
    then show ?thesis by (simp only: normalizeScopes_Some scopeList.simps)
  qed
  moreover note normalizeScope_openid normalizeScope_profile normalizeScope_email
  moreover have "startsWith prefixed (js ''https://www.googleapis.com/auth/'') \<longrightarrow>
      normalizeScope prefixed = prefixed"
    using normalizeScope_qualified [of prefixed] by (simp add: SCOPE_PREFIX_def)
  moreover have "other \<noteq> js ''openid'' \<and> other \<noteq> js ''profile'' \<and> other \<noteq> js ''email'' \<and>
    \<not> startsWith other (js ''https://www.googleapis.com/auth/'') \<longrightarrow>
      normalizeScope other = js ''https://www.googleapis.com/auth/'' @ other"
    using normalizeScope_other [of other] by (simp add: SCOPE_PREFIX_def)
  moreover note profile_list openid_email_string custom_string
  ultimately show ?thesis by blast
qed

theorem normalizeScopes_token_rule_witness:
  "startsWith (js ''https://www.googleapis.com/auth/drive'')
     (js ''https://www.googleapis.com/auth/'') \<and>
   normalizeScope (js ''https://www.googleapis.com/auth/drive'') =
     js ''https://www.googleapis.com/auth/drive'' \<and>
   js ''calendar'' \<noteq> js ''openid'' \<and> js ''calendar'' \<noteq> js ''profile'' \<and>
   js ''calendar'' \<noteq> js ''email'' \<and>
   \<not> startsWith (js ''calendar'') (js ''https://www.googleapis.com/auth/'') \<and>
   normalizeScope (js ''calendar'') = js ''https://www.googleapis.com/auth/calendar'' \<and>
   normalizeScopes (Some (ScopeString (js ''openid calendar''))) =
     {js ''openid'', js ''https://www.googleapis.com/auth/calendar''} \<and>
   normalizeScopes (Some (ScopeArray
       [js ''profile'', js ''calendar'', js ''https://www.googleapis.com/auth/drive'',
        js ''profile''])) =
     {js ''https://www.googleapis.com/auth/userinfo.profile'',
      js ''https://www.googleapis.com/auth/calendar'',
      js ''https://www.googleapis.com/auth/drive''}"
proof -
  have q: "startsWith (js ''https://www.googleapis.com/auth/drive'')
     (js ''https://www.googleapis.com/auth/'')"
    by (simp add: startsWith_def js_def)
  have o: "js ''calendar'' \<noteq> js ''openid'' \<and> js ''calendar'' \<noteq> js ''profile'' \<and>
      js ''calendar'' \<noteq> js ''email'' \<and>
      \<not> startsWith (js ''calendar'') (js ''https://www.googleapis.com/auth/'')"
    by (simp add: startsWith_def js_def)
  have l: "set (split_whitespace (js ''openid calendar'')) - {[]} =
      {js ''openid'', js ''calendar''}"
    by (simp add: js_def isWhiteSpace_def)
  have a: "js ''https://www.googleapis.com/auth/'' @ js ''calendar'' =
      js ''https://www.googleapis.com/auth/calendar''"
    by (simp add: js_def)
  note t = normalizeScopes_token_rule
      [where str = "js ''openid calendar''"
        and xs = "[js ''profile'', js ''calendar'', js ''https://www.googleapis.com/auth/drive'',
          js ''profile'']"
        and prefixed = "js ''https://www.googleapis.com/auth/drive''"
        and other = "js ''calendar''"]
  from t q have 1: "normalizeScope (js ''https://www.googleapis.com/auth/drive'') =
      js ''https://www.googleapis.com/auth/drive''"
    by blast
  from t o a have 2: "normalizeScope (js ''calendar'') =
      js ''https://www.googleapis.com/auth/calendar''"
    by simp
  from t have 3: "normalizeScope (js ''openid'') = js ''openid''"
    by blast
  from t have 4: "normalizeScope (js ''profile'') =
      js ''https://www.googleapis.com/auth/userinfo.profile''"
    by blast
  from t have "normalizeScopes (Some (ScopeString (js ''openid calendar''))) =
      normalizeScope ` (set (split_whitespace (js ''openid calendar'')) - {[]})"
    by blast
  then have 5: "normalizeScopes (Some (ScopeString (js ''openid calendar''))) =
      {js ''openid'', js ''https://www.googleapis.com/auth/calendar''}"
    by (simp only: l 2 3 image_insert image_empty)
  from t have "normalizeScopes (Some (ScopeArray
       [js ''profile'', js ''calendar'', js ''https://www.googleapis.com/auth/drive'',
        js ''profile''])) =
      normalizeScope ` set [js ''profile'', js ''calendar'',
        js ''https://www.googleapis.com/auth/drive'', js ''profile'']"
    by blast
  then have 6: "normalizeScopes (Some (ScopeArray
       [js ''profile'', js ''calendar'', js ''https://www.googleapis.com/auth/drive'',
        js ''profile''])) =
     {js ''https://www.googleapis.com/auth/userinfo.profile'',
      js ''https://www.googleapis.com/auth/calendar'',
      js ''https://www.googleapis.com/auth/drive''}"
    by (simp only: 1 2 4 list.set image_insert image_empty insert_absorb2 insert_commute)
  from q o 1 2 5 6 show ?thesis by blast
qed

text \<open>
  C2: every element of a normalised scope set is \<open>openid\<close> or carries the namespace
  prefix.
\<close>

theorem normalizeScopes_invariant:
  "\<forall>x\<in>normalizeScopes requested.
     x = js ''openid'' \<or> startsWith x (js ''https://www.googleapis.com/auth/'')"
proof
  fix x assume "x \<in> normalizeScopes requested"
  then obtain s where "x = normalizeScope s"
    by (auto simp: normalizeScopes_def split: if_splits)
  with normalizeScope_range [of s]
  show "x = js ''openid'' \<or> startsWith x (js ''https://www.googleapis.com/auth/'')"
    by (simp add: SCOPE_PREFIX_def)
qed

theorem normalizeScopes_invariant_witness:
  "js ''https://www.googleapis.com/auth/calendar''
     \<in> normalizeScopes (Some (ScopeArray [js ''calendar''])) \<and>
   (js ''https://www.googleapis.com/auth/calendar'' = js ''openid'' \<or>
    startsWith (js ''https://www.googleapis.com/auth/calendar'')
      (js ''https://www.googleapis.com/auth/''))"
proof -
  have "js ''https://www.googleapis.com/auth/calendar''
     \<in> normalizeScopes (Some (ScopeArray [js ''calendar'']))"
    by (simp add: normalizeScopes_def normalizeScope_def startsWith_def SCOPE_PREFIX_def js_def)
  with normalizeScopes_invariant [of "Some (ScopeArray [js ''calendar''])"]
  show ?thesis by blast
qed

lemma normalizeScopes_single_qualified:
  "startsWith s SCOPE_PREFIX \<Longrightarrow> normalizeScopes (Some (ScopeArray [s])) = {s}"
  by (simp add: normalizeScopes_Some normalizeScope_qualified)

lemma custom_scope_plain:
  "scopeList (ScopeString (js ''https://www.googleapis.com/auth/custom.scope'')) =
     [js ''https://www.googleapis.com/auth/custom.scope'']"
  by (simp add: js_def isWhiteSpace_def Boolean_def)

lemma custom_scope_qualified:
  "startsWith (js ''https://www.googleapis.com/auth/custom.scope'') SCOPE_PREFIX"
  by (simp add: startsWith_def SCOPE_PREFIX_def js_def)

text \<open>
  C4: normalising the elements of a normalised set again gives the same set; a scope that
  already carries the prefix normalises to itself.
\<close>

theorem normalizeScopes_idempotent:
  "(set ys = normalizeScopes requested \<longrightarrow>
      normalizeScopes (Some (ScopeArray ys)) = normalizeScopes requested) \<and>
   (startsWith prefixed (js ''https://www.googleapis.com/auth/'') \<longrightarrow>
      normalizeScopes (Some (ScopeArray [prefixed])) = {prefixed}) \<and>
   normalizeScopes (Some (ScopeString (js ''https://www.googleapis.com/auth/custom.scope''))) =
     {js ''https://www.googleapis.com/auth/custom.scope''}"
proof -
  have "set ys = normalizeScopes requested \<longrightarrow>
      normalizeScopes (Some (ScopeArray ys)) = normalizeScopes requested"
    using normalizeScopes_again [of ys requested] by blast
  moreover have "startsWith prefixed (js ''https://www.googleapis.com/auth/'') \<longrightarrow>
      normalizeScopes (Some (ScopeArray [prefixed])) = {prefixed}"
    using normalizeScopes_single_qualified [of prefixed] by (simp add: SCOPE_PREFIX_def)
  moreover have
    "normalizeScopes (Some (ScopeString (js ''https://www.googleapis.com/auth/custom.scope''))) =
      {js ''https://www.googleapis.com/auth/custom.scope''}"
    by (simp only: normalizeScopes_Some custom_scope_plain list.set image_insert image_empty
        normalizeScope_qualified [OF custom_scope_qualified])
  ultimately show ?thesis by blast
qed

theorem normalizeScopes_idempotent_witness:
  "set [js ''https://www.googleapis.com/auth/userinfo.email'', js ''openid''] =
     normalizeScopes (Some (ScopeString (js ''openid email''))) \<and>
   normalizeScopes (Some (ScopeArray
       [js ''https://www.googleapis.com/auth/userinfo.email'', js ''openid''])) =
     normalizeScopes (Some (ScopeString (js ''openid email''))) \<and>
   startsWith (js ''https://www.googleapis.com/auth/drive'')
     (js ''https://www.googleapis.com/auth/'') \<and>
   normalizeScopes (Some (ScopeArray [js ''https://www.googleapis.com/auth/drive''])) =
     {js ''https://www.googleapis.com/auth/drive''}"
proof -
  have s: "set [js ''https://www.googleapis.com/auth/userinfo.email'', js ''openid''] =
     normalizeScopes (Some (ScopeString (js ''openid email'')))"
    by (simp add: normalizeScopes_def normalizeScope_def startsWith_def SCOPE_PREFIX_def
        js_def isWhiteSpace_def Boolean_def insert_commute)
  have q: "startsWith (js ''https://www.googleapis.com/auth/drive'')
     (js ''https://www.googleapis.com/auth/'')"
    by (simp add: startsWith_def js_def)
  from s q normalizeScopes_idempotent
    [of "[js ''https://www.googleapis.com/auth/userinfo.email'', js ''openid'']"
      "Some (ScopeString (js ''openid email''))" "js ''https://www.googleapis.com/auth/drive''"]
  show ?thesis by blast
qed

text \<open>
  C5: without input (\<open>undefined\<close> or the empty string) the result is the empty set, which
  is not the default scope set.
\<close>

theorem normalizeScopes_no_input:
  "normalizeScopes None = {} \<and>
   normalizeScopes (Some (ScopeString (js ''''))) = {} \<and>
   normalizeScopes None \<noteq> defaultScopes \<and>
   normalizeScopes (Some (ScopeString (js ''''))) \<noteq> defaultScopes"
  by (simp add: normalizeScopes_def js_def defaultScopes_def)

theorem normalizeScopes_no_input_witness:
  "js ''openid'' \<in> defaultScopes \<and> js ''openid'' \<notin> normalizeScopes None \<and>
   js ''openid'' \<notin> normalizeScopes (Some (ScopeString (js '''')))"
  using normalizeScopes_no_input by (simp add: defaultScopes_def)

text \<open>
  C9: the default scope set given to the session manager has exactly the three elements
  \<open>openid\<close>, \<open>userinfo.email\<close> and \<open>userinfo.profile\<close>, the last two fully qualified.
\<close>

theorem defaultScopes_value:
  "defaultScopes =
     {js ''openid'', js ''https://www.googleapis.com/auth/userinfo.email'',
      js ''https://www.googleapis.com/auth/userinfo.profile''} \<and>
   card defaultScopes = 3"
  by (simp add: defaultScopes_def SCOPE_PREFIX_def js_def)

theorem defaultScopes_value_witness:
  "js ''https://www.googleapis.com/auth/userinfo.email'' \<in> defaultScopes \<and>
   js ''https://www.googleapis.com/auth/drive'' \<notin> defaultScopes"
proof -
  from defaultScopes_value have d: "defaultScopes =
     {js ''openid'', js ''https://www.googleapis.com/auth/userinfo.email'',
      js ''https://www.googleapis.com/auth/userinfo.profile''}"
    by (rule conjunct1)
  show ?thesis unfolding d by (simp add: js_def)
qed

lemma openid_email_list:
  "normalizeScopes (Some (ScopeArray [js ''openid email''])) =
     {js ''https://www.googleapis.com/auth/openid email''}"
  by (simp add: normalizeScopes_def normalizeScope_def startsWith_def SCOPE_PREFIX_def js_def)

lemma normalizeScopes_blank:
  "\<forall>c\<in>set s. isWhiteSpace c \<Longrightarrow> normalizeScopes (Some (ScopeString s)) = {}"
  by (simp only: normalizeScopes_Some scopeList_string_blank list.set image_empty)

text \<open>
  C10: a string is cut at every white-space code unit and the empty fragments are
  dropped; a list is taken element by element, so an element with a space in it is one
  token.
\<close>

theorem tokenisation_string_versus_list:
  "scopeList (ScopeString (js '''')) = [] \<and>
   (isWhiteSpace w \<longrightarrow>
      scopeList (ScopeString (a @ w # b)) =
        scopeList (ScopeString a) @ scopeList (ScopeString b)) \<and>
   (plain \<noteq> [] \<and> (\<forall>c\<in>set plain. \<not> isWhiteSpace c) \<longrightarrow>
      scopeList (ScopeString plain) = [plain]) \<and>
   (\<forall>f\<in>set (scopeList (ScopeString s)). f \<noteq> [] \<and> (\<forall>c\<in>set f. \<not> isWhiteSpace c)) \<and>
   ((\<forall>c\<in>set blank. isWhiteSpace c) \<longrightarrow> normalizeScopes (Some (ScopeString blank)) = {}) \<and>
   [] \<notin> normalizeScopes requested \<and>
   scopeList (ScopeArray xs) = xs \<and>
   normalizeScopes (Some (ScopeArray xs)) = normalizeScope ` set xs \<and>
   normalizeScopes (Some (ScopeArray [js ''openid email''])) =
     {js ''https://www.googleapis.com/auth/openid email''} \<and>
   normalizeScopes (Some (ScopeString (js ''openid email''))) =
     {js ''openid'', js ''https://www.googleapis.com/auth/userinfo.email''}"
proof -
  have "scopeList (ScopeString (js '''')) = []"
    by (simp add: js_def Boolean_def)
  moreover have "isWhiteSpace w \<longrightarrow>
      scopeList (ScopeString (a @ w # b)) =
        scopeList (ScopeString a) @ scopeList (ScopeString b)"
    using scopeList_string_append [of w a b] by blast
  moreover have "plain \<noteq> [] \<and> (\<forall>c\<in>set plain. \<not> isWhiteSpace c) \<longrightarrow>
      scopeList (ScopeString plain) = [plain]"
    using scopeList_string_plain [of plain] by blast
  moreover note scopeList_string_fragments [of s]
  moreover have "(\<forall>c\<in>set blank. isWhiteSpace c) \<longrightarrow>
      normalizeScopes (Some (ScopeString blank)) = {}"
    using normalizeScopes_blank [of blank] by blast
  moreover note normalizeScopes_nonempty_elements [of requested]
  moreover have "scopeList (ScopeArray xs) = xs"
    by simp
  moreover have "normalizeScopes (Some (ScopeArray xs)) = normalizeScope ` set xs"
    by (simp add: normalizeScopes_Some)
  moreover note openid_email_list openid_email_string
  ultimately show ?thesis by blast
qed

theorem tokenisation_string_versus_list_witness:
  "isWhiteSpace 0x20 \<and>
   scopeList (ScopeString (js ''openid'' @ 0x20 # js ''email'')) = [js ''openid'', js ''email''] \<and>
   normalizeScopes (Some (ScopeString [0x20, 0x09, 0x0A])) = {} \<and>
   normalizeScopes (Some (ScopeArray [[0x20, 0x09, 0x0A]])) =
     {js ''https://www.googleapis.com/auth/'' @ [0x20, 0x09, 0x0A]}"
proof -
  note t = tokenisation_string_versus_list
    [of "0x20" "js ''openid''" "js ''email''" "js ''openid''" "js ''openid email''"
      "[0x20, 0x09, 0x0A]" "None" "[[0x20, 0x09, 0x0A]]"]
  have w: "isWhiteSpace 0x20"
    by (simp add: isWhiteSpace_def)
  have p: "js ''openid'' \<noteq> [] \<and> (\<forall>c\<in>set (js ''openid''). \<not> isWhiteSpace c)"
    by (simp add: js_def isWhiteSpace_def)
  have p': "js ''email'' \<noteq> [] \<and> (\<forall>c\<in>set (js ''email''). \<not> isWhiteSpace c)"
    by (simp add: js_def isWhiteSpace_def)
  have b: "\<forall>c\<in>set [0x20, 0x09, 0x0A]. isWhiteSpace c"
    by (simp add: isWhiteSpace_def)
  from t w have 1: "scopeList (ScopeString (js ''openid'' @ 0x20 # js ''email'')) =
      scopeList (ScopeString (js ''openid'')) @ scopeList (ScopeString (js ''email''))"
    by blast
  from t p have 2: "scopeList (ScopeString (js ''openid'')) = [js ''openid'']"
    by blast
  from tokenisation_string_versus_list [of _ _ _ "js ''email''"] p'
  have 3: "scopeList (ScopeString (js ''email'')) = [js ''email'']"
    by blast
  from t b have 4: "normalizeScopes (Some (ScopeString [0x20, 0x09, 0x0A])) = {}"
    by blast
  from t have "normalizeScopes (Some (ScopeArray [[0x20, 0x09, 0x0A]])) =
      normalizeScope ` set [[0x20, 0x09, 0x0A]]"
    by blast
  then have 5: "normalizeScopes (Some (ScopeArray [[0x20, 0x09, 0x0A]])) =
     {js ''https://www.googleapis.com/auth/'' @ [0x20, 0x09, 0x0A]}"
    by (simp add: normalizeScope_def startsWith_def SCOPE_PREFIX_def js_def)
  from w 1 2 3 4 5 show ?thesis by simp
qed

section \<open>Properties of the session transform and the refresh predicate\<close>

lemma pow2_nonneg: "0 \<le> e \<Longrightarrow> pow2 e = 2 ^ nat e"
  by (simp add: pow2_def)

lemma pow2_neg: "e \<le> 0 \<Longrightarrow> pow2 e = 1 / 2 ^ nat (- e)"
  by (simp add: pow2_def)

lemma ilog2_bounds_ge1:
  assumes "1 \<le> a"
  shows "pow2 (ilog2 a) \<le> a \<and> a < pow2 (ilog2 a + 1)"
proof -
  define n where "n = \<lfloor>a\<rfloor>"
  have n: "0 < n" using assms by (simp add: n_def)
  from bitlen_bounds [OF n]
  have lo: "2 ^ nat (bitlen n - 1) \<le> n" and hi: "n < 2 ^ nat (bitlen n)" by auto
  have b: "1 \<le> bitlen n"
    using n bitlen_eq_zero_iff [of n] bitlen_nonneg [of n] by linarith
  have "rat_of_int (2 ^ nat (bitlen n - 1)) \<le> of_int n"
    using lo by (simp only: of_int_le_iff)
  also have "\<dots> \<le> a" by (simp add: n_def)
  finally have 1: "pow2 (bitlen n - 1) \<le> a"
    using b by (simp add: pow2_nonneg)
  have "n + 1 \<le> 2 ^ nat (bitlen n)" using hi by simp
  then have "rat_of_int (n + 1) \<le> of_int (2 ^ nat (bitlen n))"
    by (simp only: of_int_le_iff)
  moreover have "a < of_int (n + 1)"
    unfolding n_def by linarith
  ultimately have 2: "a < pow2 (bitlen n)"
    using b by (simp add: pow2_nonneg)
  from 1 2 assms show ?thesis by (simp add: ilog2_def n_def)
qed

lemma ilog2_bounds_lt1:
  assumes "0 < a" "a < 1"
  shows "pow2 (ilog2 a) \<le> a \<and> a < pow2 (ilog2 a + 1)"
proof -
  define y where "y = 1 / a"
  define n where "n = \<lceil>y\<rceil> - 1"
  have y: "1 < y" using assms by (simp add: y_def)
  have n: "0 < n" using y unfolding n_def by linarith
  from bitlen_bounds [OF n]
  have lo: "2 ^ nat (bitlen n - 1) \<le> n" and hi: "n < 2 ^ nat (bitlen n)" by auto
  have b: "1 \<le> bitlen n"
    using n bitlen_eq_zero_iff [of n] bitlen_nonneg [of n] by linarith
  have a: "a = 1 / y" using assms by (simp add: y_def)
  have "y \<le> of_int (n + 1)" unfolding n_def by simp
  also have "\<dots> \<le> rat_of_int (2 ^ nat (bitlen n))"
    using hi by (simp only: of_int_le_iff)
  finally have "y \<le> 2 ^ nat (bitlen n)" by simp
  then have "1 / 2 ^ nat (bitlen n) \<le> 1 / y"
    using y by (simp add: field_simps)
  then have 1: "pow2 (- bitlen n) \<le> a"
    using b a by (simp add: pow2_neg)
  have "(2::rat) ^ nat (bitlen n - 1) = of_int (2 ^ nat (bitlen n - 1))" by simp
  also have "\<dots> \<le> of_int n"
    using lo by (simp only: of_int_le_iff)
  also have "\<dots> < y" unfolding n_def by linarith
  finally have "2 ^ nat (bitlen n - 1) < y" .
  then have "1 / y < 1 / 2 ^ nat (bitlen n - 1)"
    using y by (simp add: field_simps)
  moreover have "pow2 (- bitlen n + 1) = 1 / 2 ^ nat (bitlen n - 1)"
  proof (cases "bitlen n = 1")
    case True
    then show ?thesis by (simp add: pow2_def)
  next
    case False
    with b have "- bitlen n + 1 \<le> 0" and "nat (- (- bitlen n + 1)) = nat (bitlen n - 1)"
      by simp_all
    then show ?thesis by (simp only: pow2_neg)
  qed
  ultimately have 2: "a < pow2 (- bitlen n + 1)"
    by (simp only: a)
  from 1 2 assms show ?thesis by (simp add: ilog2_def n_def y_def)
qed

lemma ilog2_bounds:
  "0 < a \<Longrightarrow> pow2 (ilog2 a) \<le> a \<and> a < pow2 (ilog2 a + 1)"
  using ilog2_bounds_ge1 [of a] ilog2_bounds_lt1 [of a] by (cases "1 \<le> a") auto














text \<open>
  C7: a session is due for refresh exactly when its expiry lies less than 300 seconds
  (300000 ms) after the current time.
\<close>

theorem sessionShouldRefresh_threshold:
  "sessionShouldRefresh now session \<longleftrightarrow>
     (\<exists>t. getTime (expiresAt (GoogleSession.providerInfo session)) = Some t \<and>
          t - now < 300 * 1000)"
  by (auto simp: sessionShouldRefresh_def split: option.splits)

theorem sessionShouldRefresh_threshold_witness:
  "sessionShouldRefresh 1600000000000
     \<lparr> GoogleSession.providerInfo =
         \<lparr> SessionProviderInfo.idToken = js ''eyJ'',
           SessionProviderInfo.accessToken = js ''ya29'',
           SessionProviderInfo.scopes = {js ''openid''},
           expiresAt = TimeValue 1600000299999 \<rparr>,
       GoogleSession.profile = js ''profile'',
       GoogleSession.backstageIdentity = js ''identity'' \<rparr> \<and>
   \<not> sessionShouldRefresh 1600000000000
     \<lparr> GoogleSession.providerInfo =
         \<lparr> SessionProviderInfo.idToken = js ''eyJ'',
           SessionProviderInfo.accessToken = js ''ya29'',
           SessionProviderInfo.scopes = {js ''openid''},
           expiresAt = TimeValue 1600000300000 \<rparr>,
       GoogleSession.profile = js ''profile'',
       GoogleSession.backstageIdentity = js ''identity'' \<rparr>"
  by (simp add: sessionShouldRefresh_threshold)

text \<open>
  C8: the transform keeps the profile, the backstage identity and every other property of
  the response; only \<open>providerInfo\<close> is built anew, with the two tokens copied into it.
\<close>

theorem sessionTransform_frame:
  "GoogleSession.profile (sessionTransform now res) = GoogleAuthResponse.profile res \<and>
   GoogleSession.backstageIdentity (sessionTransform now res) =
     GoogleAuthResponse.backstageIdentity res \<and>
   GoogleSession.more (sessionTransform now res) = GoogleAuthResponse.more res \<and>
   SessionProviderInfo.idToken (GoogleSession.providerInfo (sessionTransform now res)) =
     ResponseProviderInfo.idToken (GoogleAuthResponse.providerInfo res) \<and>
   SessionProviderInfo.accessToken (GoogleSession.providerInfo (sessionTransform now res)) =
     ResponseProviderInfo.accessToken (GoogleAuthResponse.providerInfo res)"
  by (simp add: sessionTransform_def)

theorem sessionTransform_frame_witness:
  "GoogleSession.profile (sessionTransform 1600000000000
     \<lparr> GoogleAuthResponse.providerInfo =
         \<lparr> ResponseProviderInfo.accessToken = js ''ya29'',
           ResponseProviderInfo.idToken = js ''eyJ'',
           scope = js ''openid email'',
           expiresInSeconds = Finite 600 \<rparr>,
       GoogleAuthResponse.profile = js ''profile'',
       GoogleAuthResponse.backstageIdentity = js ''identity'' \<rparr>) = js ''profile'' \<and>
   GoogleSession.backstageIdentity (sessionTransform 1600000000000
     \<lparr> GoogleAuthResponse.providerInfo =
         \<lparr> ResponseProviderInfo.accessToken = js ''ya29'',
           ResponseProviderInfo.idToken = js ''eyJ'',
           scope = js ''openid email'',
           expiresInSeconds = Finite 600 \<rparr>,
       GoogleAuthResponse.profile = js ''profile'',
       GoogleAuthResponse.backstageIdentity = js ''identity'' \<rparr>) = js ''identity''"
  by (simp add: sessionTransform_frame)

section \<open>Properties of the facade\<close>

lemma await_then_fulfilled: "await_then (Inr v, m') k = (Inr (k v), m')"
  by (simp add: await_then_def)

text \<open>
  C3: when the session manager fulfils with no session, the token getters return the
  empty string and the profile and identity getters return \<open>undefined\<close>; none rejects.
\<close>

theorem absent_session_sentinels:
  "(getSession sessionManager
      \<lparr> options = opts, GetSessionOptions.scopes = Some (normalizeScopes scope_arg) \<rparr> m
        = (Inr None, m') \<longrightarrow>
      getAccessToken sessionManager scope_arg opts m = (Inr (js ''''), m')) \<and>
   (getSession sessionManager \<lparr> options = opts, GetSessionOptions.scopes = None \<rparr> m
        = (Inr None, m') \<longrightarrow>
      getIdToken sessionManager opts m = (Inr (js ''''), m') \<and>
      getProfile sessionManager opts m = (Inr None, m') \<and>
      getBackstageIdentity sessionManager opts m = (Inr None, m'))"
  by (simp add: getAccessToken_def getIdToken_def getProfile_def getBackstageIdentity_def
      await_then_fulfilled)

theorem absent_session_sentinels_witness:
  "getAccessToken
     \<lparr> getSession = (\<lambda>request (m::nat). (Inr (None :: (unit, unit) GoogleSession option), Suc m)),
       removeSession = (\<lambda>m. (Inr (), 0)) \<rparr>
     (Some (ScopeString (js ''email''))) (None :: unit option) 0
     = (Inr [] :: unit + jsstring, 1) \<and>
   getIdToken
     \<lparr> getSession = (\<lambda>request (m::nat). (Inr (None :: (unit, unit) GoogleSession option), Suc m)),
       removeSession = (\<lambda>m. (Inr (), 0)) \<rparr>
     (None :: unit option) 0
     = (Inr [] :: unit + jsstring, 1) \<and>
   getProfile
     \<lparr> getSession = (\<lambda>request (m::nat). (Inr (None :: (unit, unit) GoogleSession option), Suc m)),
       removeSession = (\<lambda>m. (Inr (), 0)) \<rparr>
     (None :: unit option) 0
     = (Inr None :: unit + unit option, 1) \<and>
   getBackstageIdentity
     \<lparr> getSession = (\<lambda>request (m::nat). (Inr (None :: (unit, unit) GoogleSession option), Suc m)),
       removeSession = (\<lambda>m. (Inr (), 0)) \<rparr>
     (None :: unit option) 0
     = (Inr None :: unit + unit option, 1)"
  using absent_session_sentinels
    [of "\<lparr> getSession = (\<lambda>request (m::nat).
              (Inr (None :: (unit, unit) GoogleSession option) :: unit + _, Suc m)),
          removeSession = (\<lambda>m. (Inr (), 0)) \<rparr>"
      "None :: unit option" "Some (ScopeString (js ''email''))" 0 1]
  by (simp add: js_def)

end
